theory Spec2Isabelle
  imports Complex_Main "HOL-Library.Log_Nat"
begin

section \<open>Python values used by configure.py\<close>

text \<open>
  A Python \<^verbatim>\<open>float\<close> is an IEEE binary64 value. A finite one is represented by the
  exact rational it denotes (so \<open>-0.0\<close> and \<open>0.0\<close> coincide, as they do under \<^verbatim>\<open>==\<close>);
  \<open>Infinite True\<close> is the negative infinity.
\<close>

datatype pyfloat = Finite rat | Infinite bool | NaN

datatype pyval = VStr string | VInt int | VFloat pyfloat | VBool bool

datatype exn = ValueError | KeyError | IndexError | AttributeError | TypeError

subsection \<open>Rounding a decimal to binary64\<close>

definition pow2 :: "int \<Rightarrow> rat" where
  "pow2 k = (if 0 \<le> k then 2 ^ nat k else 1 / 2 ^ nat (- k))"

definition pow10 :: "int \<Rightarrow> rat" where
  "pow10 k = (if 0 \<le> k then 10 ^ nat k else 1 / 10 ^ nat (- k))"

definition round_half_even :: "rat \<Rightarrow> int" where
  "round_half_even x =
     (let f = \<lfloor>x\<rfloor>; r = x - of_int f
      in if r < 1 / 2 then f
         else if 1 / 2 < r then f + 1
         else if even f then f else f + 1)"

text \<open>For \<open>0 < x\<close>, the integer \<open>e\<close> with \<open>2 ^ e \<le> x < 2 ^ (e + 1)\<close>.\<close>

definition binary_exponent :: "rat \<Rightarrow> int" where
  "binary_exponent x =
     (let k = bitlen (fst (quotient_of x)) - bitlen (snd (quotient_of x))
      in if pow2 k \<le> x then k else k - 1)"

text \<open>
  Round to nearest, ties to even, with 53 significant bits, gradual underflow below
  \<open>2 ^ -1022\<close> and overflow to an infinity: what the interpreter does with a float
  literal and what \<^verbatim>\<open>float(str)\<close> does with a decimal numeral.
\<close>

definition double_of_rat :: "rat \<Rightarrow> pyfloat" where
  "double_of_rat x =
     (if x = 0 then Finite 0
      else
        let s = max (binary_exponent \<bar>x\<bar>) (- 1022) - 52;
            m = round_half_even (\<bar>x\<bar> / pow2 s);
            y = of_int m * pow2 s
        in if pow2 1024 \<le> y then Infinite (x < 0)
           else Finite (if x < 0 then - y else y))"

text \<open>Python's \<^verbatim>\<open>==\<close> on floats: a NaN equals nothing.\<close>

definition float_eq :: "pyfloat \<Rightarrow> pyfloat \<Rightarrow> bool" where
  "float_eq a b = (a = b \<and> a \<noteq> NaN)"

text \<open>
  \<^verbatim>\<open>x in xs\<close> for a freshly made float \<open>x\<close> and a list of floats: some element
  compares equal.
\<close>

definition py_in :: "pyfloat \<Rightarrow> pyfloat list \<Rightarrow> bool" where
  "py_in x xs = list_ex (float_eq x) xs"

subsection \<open>The builtin \<^verbatim>\<open>float\<close> on a string\<close>

text \<open>
  Strings are lists of 8-bit characters, read as the code points below 256. On these,
  \<^verbatim>\<open>float\<close> treats the six ASCII blanks and the two code points 0x85 and 0xA0 as
  white space; every other character from 0x7F upwards is rejected.
\<close>

definition is_space :: "char \<Rightarrow> bool" where
  "is_space c = (of_char c \<in> set [9, 10, 11, 12, 13, 32, 133, 160 :: nat])"

definition is_digit :: "char \<Rightarrow> bool" where
  "is_digit c = (48 \<le> (of_char c :: nat) \<and> (of_char c :: nat) \<le> 57)"

definition digit_value :: "char \<Rightarrow> int" where
  "digit_value c = of_char c - 48"

definition digits_value :: "string \<Rightarrow> int" where
  "digits_value ds = foldl (\<lambda>n c. 10 * n + digit_value c) 0 ds"

definition lower :: "char \<Rightarrow> char" where
  "lower c = (if 65 \<le> (of_char c :: nat) \<and> (of_char c :: nat) \<le> 90
              then char_of (of_char c + 32 :: nat) else c)"

text \<open>
  Underscores are dropped first; each must stand between two digits. The first argument
  is the previous character (NUL at the start).
\<close>

fun strip_underscores :: "char \<Rightarrow> string \<Rightarrow> string option" where
  "strip_underscores prev [] = (if prev = CHR ''_'' then None else Some [])"
| "strip_underscores prev (c # cs) =
     (if c = CHR ''_'' then
        (if is_digit prev then strip_underscores c cs else None)
      else if prev = CHR ''_'' \<and> \<not> is_digit c then None
      else map_option ((#) c) (strip_underscores c cs))"

definition strip_spaces :: "string \<Rightarrow> string" where
  "strip_spaces s = rev (dropWhile is_space (rev (dropWhile is_space s)))"

fun parse_sign :: "string \<Rightarrow> bool \<times> string" where
  "parse_sign [] = (False, [])"
| "parse_sign (c # cs) =
     (if c = CHR ''-'' then (True, cs)
      else if c = CHR ''+'' then (False, cs)
      else (False, c # cs))"

text \<open>
  The exponent part, which has to reach the end of the string: nothing, or \<open>e\<close>/\<open>E\<close>,
  an optional sign and at least one digit.
\<close>

fun parse_exponent :: "string \<Rightarrow> int option" where
  "parse_exponent [] = Some 0"
| "parse_exponent (c # cs) =
     (if c = CHR ''e'' \<or> c = CHR ''E'' then
        (case parse_sign cs of
           (neg, ds) \<Rightarrow>
             if ds \<noteq> [] \<and> list_all is_digit ds
             then Some (if neg then - digits_value ds else digits_value ds)
             else None)
      else None)"

text \<open>
  An unsigned decimal numeral: digits, an optional point with more digits, at least one
  digit in all, then the exponent. The value is exact.
\<close>

definition parse_decimal :: "string \<Rightarrow> rat option" where
  "parse_decimal s =
     (let ip = takeWhile is_digit s;
          r1 = dropWhile is_digit s;
          fp = (case r1 of [] \<Rightarrow> [] | c # cs \<Rightarrow> if c = CHR ''.'' then takeWhile is_digit cs else []);
          r2 = (case r1 of [] \<Rightarrow> [] | c # cs \<Rightarrow> if c = CHR ''.'' then dropWhile is_digit cs else r1)
      in if ip = [] \<and> fp = [] then None
         else (case parse_exponent r2 of
                 None \<Rightarrow> None
               | Some e \<Rightarrow> Some (of_int (digits_value (ip @ fp)) * pow10 (e - int (length fp)))))"

definition parse_inf_or_nan :: "bool \<Rightarrow> string \<Rightarrow> pyfloat option" where
  "parse_inf_or_nan neg s =
     (if map lower s = ''inf'' \<or> map lower s = ''infinity'' then Some (Infinite neg)
      else if map lower s = ''nan'' then Some NaN
      else None)"

definition python_float :: "string \<Rightarrow> exn + pyfloat" where
  "python_float v =
     (case strip_underscores (CHR 0x00) v of
        None \<Rightarrow> Inl ValueError
      | Some u \<Rightarrow>
          (case parse_sign (strip_spaces u) of
             (neg, body) \<Rightarrow>
               (case parse_decimal body of
                  Some q \<Rightarrow> Inr (double_of_rat (if neg then - q else q))
                | None \<Rightarrow>
                    (case parse_inf_or_nan neg body of
                       Some f \<Rightarrow> Inr f
                     | None \<Rightarrow> Inl ValueError))))"

section \<open>The host: what the script sees of \<^verbatim>\<open>bpy\<close>\<close>

text \<open>
  Modelled from the spec: the declarations of the host's objects, which are not in the
  repository. A UI-panel object (a space) has a type and is filtered by display mode, it
  lies in an area that has a type, and the area lies in a screen that has a name. These
  are the attributes the script reads, so they are record fields; the script never
  assigns them. Not every kind of space has a display mode: the field is \<open>None\<close> for a
  space object without the attribute, and reading it there raises AttributeError.
\<close>

record space =
  space_type :: string
  space_display_mode :: "string option"

record area =
  area_type :: string
  area_spaces :: "space list"

record screen =
  screen_name :: string
  screen_areas :: "area list"

text \<open>
  Host objects have identity. A space is named by its position (screen, area, space), a
  camera by its position in \<^verbatim>\<open>bpy.data.cameras\<close>; \<open>Attr o a\<close> is \<^verbatim>\<open>o.a\<close> and
  \<open>Item o k\<close> is \<^verbatim>\<open>o[k]\<close>. Every attribute or item the script assigns is a location
  of this kind, and the host's settings are a store from locations to values.
\<close>

datatype key = KInt nat | KStr string

datatype obj =
    Scene
  | View_layer
  | Preferences
  | Window_manager
  | Space nat nat nat
  | Camera nat
  | Attr obj string
  | Item obj key

record host =
  app_version_string :: string
  data_screens :: "screen list"
  data_cameras :: "string list"
  pref_themes :: "string list"
  pref_addons :: "string list"
  enum_accepts :: "obj \<Rightarrow> string \<Rightarrow> bool"
  props :: "obj \<rightharpoonup> pyval"

text \<open>
  \<open>data_cameras\<close> and \<open>pref_themes\<close> hold the names of the camera and theme
  datablocks, \<open>pref_addons\<close> the module names of the enabled add-ons, which are the keys
  of \<^verbatim>\<open>preferences.addons\<close>. \<open>enum_accepts h loc s\<close> is the host's own rule for its
  enumeration properties: whether the property at \<open>loc\<close> takes the identifier \<open>s\<close>
  (which render engines, devices or languages a host knows depends on the host).

  The state a run of the script acts on: the host, the lines printed so far, and the
  names of the setter routines entered so far.
\<close>

record world =
  bpy :: host
  stdout :: "string list"
  invoked :: "string list"

subsection \<open>Statements\<close>

text \<open>
  A statement maps a world to the exception it raised, if any, and the world it left.
  What was assigned before an exception stays assigned.

  An assignment hands the value to the host. Every string the script assigns goes to an
  enumeration property, and the host raises TypeError for an identifier the property
  does not take; the script does not catch it. Numbers and truth values are converted
  and clamped by the host, not rejected, and the store keeps the value assigned.
\<close>

type_synonym stmt = "world \<Rightarrow> exn option \<times> world"

definition store :: "obj \<Rightarrow> pyval \<Rightarrow> stmt" where
  "store loc v w = (None, w\<lparr>bpy := (bpy w)\<lparr>props := (props (bpy w))(loc \<mapsto> v)\<rparr>\<rparr>)"

definition assign :: "obj \<Rightarrow> pyval \<Rightarrow> stmt" where
  "assign loc v w =
     (case v of
        VStr s \<Rightarrow> if enum_accepts (bpy w) loc s then store loc v w else (Some TypeError, w)
      | _ \<Rightarrow> store loc v w)"

definition setattr :: "obj \<Rightarrow> string \<Rightarrow> pyval \<Rightarrow> stmt" where
  "setattr ob a v = assign (Attr ob a) v"

definition setitem :: "obj \<Rightarrow> key \<Rightarrow> pyval \<Rightarrow> stmt" where
  "setitem ob k v = assign (Item ob k) v"

fun block :: "stmt list \<Rightarrow> stmt" where
  "block [] w = (None, w)"
| "block (s # ss) w =
     (case s w of
        (Some e, w') \<Rightarrow> (Some e, w')
      | (None, w') \<Rightarrow> block ss w')"

definition for_each :: "'a list \<Rightarrow> ('a \<Rightarrow> stmt) \<Rightarrow> stmt" where
  "for_each xs body = block (map body xs)"

text \<open>Evaluate an expression on the host, then run the statement that uses its value.\<close>

definition eval_then :: "(host \<Rightarrow> exn + 'a) \<Rightarrow> ('a \<Rightarrow> stmt) \<Rightarrow> stmt" where
  "eval_then e k w = (case e (bpy w) of Inl x \<Rightarrow> (Some x, w) | Inr v \<Rightarrow> k v w)"

definition print :: "string \<Rightarrow> stmt" where
  "print line w = (None, w\<lparr>stdout := stdout w @ [line]\<rparr>)"

text \<open>Calling a setter routine: its entry is recorded, then its body runs.\<close>

definition invoke :: "string \<Rightarrow> stmt \<Rightarrow> stmt" where
  "invoke routine body w = body (w\<lparr>invoked := invoked w @ [routine]\<rparr>)"

text \<open>
  The two subscripts of the script on host collections: \<^verbatim>\<open>pref.themes[i]\<close> raises
  IndexError past the end, \<^verbatim>\<open>pref.addons[name]\<close> raises KeyError on a missing key.
\<close>

definition themes_getitem :: "nat \<Rightarrow> host \<Rightarrow> exn + obj" where
  "themes_getitem i h =
     (if i < length (pref_themes h) then Inr (Item (Attr Preferences ''themes'') (KInt i))
      else Inl IndexError)"

definition addons_getitem :: "string \<Rightarrow> host \<Rightarrow> exn + obj" where
  "addons_getitem nm h =
     (if nm \<in> set (pref_addons h) then Inr (Item (Attr Preferences ''addons'') (KStr nm))
      else Inl KeyError)"

section \<open>class BlenderCustomSettings\<close>

record bcs =
  ver :: pyfloat
  supports :: "pyfloat list"

definition init :: "host \<Rightarrow> exn + bcs" where
  "init h =
     (case python_float (take 4 (app_version_string h)) of
        Inl e \<Rightarrow> Inl e
      | Inr v \<Rightarrow> Inr \<lparr>ver = v, supports = [double_of_rat (283 / 100)]\<rparr>)"

definition check_version :: "bcs \<Rightarrow> bool" where
  "check_version self = py_in (ver self) (supports self)"

text \<open>
  A loop whose body may raise: the first exception ends it.
\<close>

fun fold_err :: "('a \<Rightarrow> 'b \<Rightarrow> exn + 'b) \<Rightarrow> 'a list \<Rightarrow> 'b \<Rightarrow> exn + 'b" where
  "fold_err f [] acc = Inr acc"
| "fold_err f (x # xs) acc =
     (case f x acc of Inl e \<Rightarrow> Inl e | Inr acc' \<Rightarrow> fold_err f xs acc')"

text \<open>
  \<^verbatim>\<open>filter(lambda sp: sp.display_mode == display_mode, spaces)\<close>, run to its end by
  the loop that consumes it: reading the attribute of a space that has none raises.
\<close>

fun filter_display_mode ::
  "string \<Rightarrow> (nat \<times> space) list \<Rightarrow> exn + (nat \<times> space) list" where
  "filter_display_mode d [] = Inr []"
| "filter_display_mode d ((k, sp) # rest) =
     (case space_display_mode sp of
        None \<Rightarrow> Inl AttributeError
      | Some m \<Rightarrow>
          (case filter_display_mode d rest of
             Inl e \<Rightarrow> Inl e
           | Inr found \<Rightarrow> Inr (if m = d then (k, sp) # found else found)))"

text \<open>
  \<^verbatim>\<open>get_spaces\<close>: the three nested loops append to \<open>target_spaces\<close>. An argument left
  out is \<open>None\<close>; \<^verbatim>\<open>if screen_names:\<close> and \<^verbatim>\<open>if display_mode:\<close> are false for
  \<open>None\<close>, for the empty list and for the empty string. An exception leaves the
  method without a result.
\<close>

definition get_spaces ::
  "bcs \<Rightarrow> host \<Rightarrow> string \<Rightarrow> string option \<Rightarrow> string list option \<Rightarrow> exn + obj list" where
  "get_spaces self h type_name display_mode screen_names =
     (let screens0 = enumerate 0 (data_screens h);
          screens1 =
            (case screen_names of
               Some (n # ns) \<Rightarrow> filter (\<lambda>(i, sc). screen_name sc \<in> set (n # ns)) screens0
             | _ \<Rightarrow> screens0)
      in fold_err (\<lambda>(i, screen) target_spaces.
           fold_err (\<lambda>(j, area) target_spaces.
             let spaces0 = filter (\<lambda>(k, sp). space_type sp = type_name)
                             (enumerate 0 (area_spaces area))
             in case (case display_mode of
                        Some (d # ds) \<Rightarrow> filter_display_mode (d # ds) spaces0
                      | _ \<Rightarrow> Inr spaces0) of
                  Inl e \<Rightarrow> Inl e
                | Inr spaces1 \<Rightarrow>
                    Inr (fold (\<lambda>(k, space) target_spaces. target_spaces @ [Space i j k])
                           spaces1 target_spaces))
             (filter (\<lambda>(j, area). area_type area = type_name)
                (enumerate 0 (screen_areas screen)))
             target_spaces)
           screens1 [])"

definition setup_scene_cycles :: "bcs \<Rightarrow> stmt" where
  "setup_scene_cycles self =
     (let scene = Scene; view_layer = View_layer; bounces = VInt 32
      in block
        [ setattr (Attr scene ''render'') ''engine'' (VStr ''CYCLES''),
          setattr (Attr scene ''cycles'') ''feature_set'' (VStr ''EXPERIMENTAL''),
          setattr (Attr scene ''cycles'') ''device'' (VStr ''GPU''),
          setattr (Attr scene ''cycles'') ''preview_dicing_rate'' (VInt 1),
          setattr (Attr view_layer ''cycles'') ''use_denoising'' (VBool True),
          setattr (Attr view_layer ''cycles'') ''use_optix_denoising'' (VBool True),
          setattr (Attr view_layer ''cycles'') ''denoising_optix_input_passes''
            (VStr ''RGB_ALBEDO''),
          setattr (Attr scene ''cycles'') ''preview_denoising'' (VStr ''NONE''),
          setattr (Attr scene ''cycles'') ''samples'' (VInt 128),
          setattr (Attr scene ''cycles'') ''preview_samples'' (VInt 32),
          setattr (Attr scene ''cycles'') ''use_adaptive_sampling'' (VBool True),
          setattr (Attr scene ''cycles'') ''max_bounces'' bounces,
          setattr (Attr scene ''cycles'') ''diffuse_bounces'' bounces,
          setattr (Attr scene ''cycles'') ''glossy_bounces'' bounces,
          setattr (Attr scene ''cycles'') ''transparent_max_bounces'' bounces,
          setattr (Attr scene ''cycles'') ''transmission_bounces'' bounces,
          setattr (Attr scene ''cycles'') ''volume_bounces'' bounces,
          setattr (Attr scene ''cycles'') ''caustics_reflective'' (VBool True),
          setattr (Attr scene ''cycles'') ''caustics_refractive'' (VBool True),
          setattr (Attr scene ''render'') ''threads_mode'' (VStr ''AUTO''),
          setattr (Attr scene ''render'') ''tile_x'' (VInt 256),
          setattr (Attr scene ''render'') ''tile_y'' (VInt 256),
          setattr (Attr scene ''cycles'') ''use_progressive_refine'' (VBool False) ])"

definition setup_scene_shading :: "bcs \<Rightarrow> stmt" where
  "setup_scene_shading self =
     (let target_screens =
            [''Layout'', ''Modeling'', ''Sculpting'', ''UV Editing'', ''Animation'',
             ''Scripting'']
      in eval_then (\<lambda>h. get_spaces self h ''VIEW_3D'' None (Some target_screens))
           (\<lambda>found. for_each found (\<lambda>space. block
              [ setattr (Attr space ''shading'') ''type'' (VStr ''SOLID''),
                setattr (Attr space ''shading'') ''light'' (VStr ''STUDIO''),
                setattr (Attr space ''shading'') ''color_type'' (VStr ''RANDOM''),
                setattr (Attr space ''shading'') ''show_cavity'' (VBool True),
                setattr (Attr space ''shading'') ''cavity_type'' (VStr ''BOTH''),
                setattr (Attr space ''shading'') ''cavity_ridge_factor''
                  (VFloat (double_of_rat (8 / 10))),
                setattr (Attr space ''shading'') ''cavity_valley_factor''
                  (VFloat (double_of_rat 1)),
                setattr (Attr space ''shading'') ''curvature_ridge_factor''
                  (VFloat (double_of_rat (8 / 10))),
                setattr (Attr space ''shading'') ''curvature_valley_factor''
                  (VFloat (double_of_rat 1)) ])))"

definition setup_scene_outliner :: "bcs \<Rightarrow> stmt" where
  "setup_scene_outliner self =
     eval_then (\<lambda>h. get_spaces self h ''OUTLINER'' (Some ''VIEW_LAYER'') None)
       (\<lambda>found. for_each found (\<lambda>space. block
          [ setattr space ''show_restrict_column_select'' (VBool True),
            setattr space ''show_restrict_column_render'' (VBool True) ]))"

definition setup_scene_clipping :: "bcs \<Rightarrow> stmt" where
  "setup_scene_clipping self =
     (let start = VFloat (double_of_rat (1 / 1000)); end = VInt 1000
      in block
        [ eval_then (\<lambda>h. get_spaces self h ''VIEW_3D'' None None)
            (\<lambda>found. for_each found (\<lambda>space. block
               [ setattr space ''clip_start'' start,
                 setattr space ''clip_end'' end ])),
          eval_then (\<lambda>h. Inr (map Camera [0..<length (data_cameras h)]))
            (\<lambda>cameras. for_each cameras (\<lambda>cam. block
               [ setattr cam ''clip_start'' start,
                 setattr cam ''clip_end'' end ])) ])"

definition setup_scene_scripting :: "bcs \<Rightarrow> stmt" where
  "setup_scene_scripting self =
     eval_then (\<lambda>h. get_spaces self h ''CONSOLE'' None None)
       (\<lambda>found. for_each found (\<lambda>space. setattr space ''font_size'' (VInt 16)))"

definition setup_preferences :: "bcs \<Rightarrow> stmt" where
  "setup_preferences self =
     (let pref = Preferences
      in block
        [ setattr (Attr pref ''view'') ''ui_scale'' (VFloat (double_of_rat (105 / 100))),
          setattr (Attr pref ''view'') ''ui_line_width'' (VStr ''AUTO''),
          setattr (Attr pref ''view'') ''show_splash'' (VBool False),
          setattr (Attr pref ''view'') ''show_tooltips'' (VBool True),
          setattr (Attr pref ''view'') ''show_tooltips_python'' (VBool True),
          setattr (Attr pref ''view'') ''show_developer_ui'' (VBool False),
          setattr (Attr pref ''view'') ''language'' (VStr ''ja_JP''),
          setattr (Attr pref ''view'') ''use_translate_tooltips'' (VBool True),
          setattr (Attr pref ''view'') ''use_translate_interface'' (VBool False),
          setattr (Attr pref ''view'') ''use_translate_new_dataname'' (VBool False),
          eval_then (themes_getitem 0)
            (\<lambda>theme. setitem (Attr (Attr theme ''view_3d'') ''face_select'') (KInt 3)
                        (VFloat (double_of_rat (4 / 10)))),
          setattr (Attr pref ''view'') ''gizmo_size'' (VInt 120),
          setattr (Attr pref ''inputs'') ''use_numeric_input_advanced'' (VBool True),
          setattr (Attr pref ''inputs'') ''mouse_double_click_time'' (VInt 250),
          setattr (Attr pref ''inputs'') ''drag_threshold_mouse'' (VInt 5),
          setattr (Attr pref ''inputs'') ''drag_threshold'' (VInt 45),
          setattr (Attr pref ''inputs'') ''move_threshold'' (VInt 3),
          setattr (Attr pref ''inputs'') ''ndof_show_guide'' (VBool True),
          setattr (Attr pref ''inputs'') ''ndof_pan_yz_swap_axis'' (VBool True),
          setattr (Attr pref ''inputs'') ''use_zoom_to_mouse'' (VBool True),
          setattr (Attr (Attr (Attr Window_manager ''keyconfigs'') ''default'') ''preferences'')
            ''spacebar_action'' (VStr ''SEARCH''),
          eval_then (addons_getitem ''cycles'')
            (\<lambda>addon. setattr (Attr addon ''preferences'') ''compute_device_type''
                        (VStr ''OPTIX'')) ])"

section \<open>Entry point\<close>

text \<open>
  The \<^verbatim>\<open>__main__\<close> block. The final \<^verbatim>\<open>del bcs\<close> unbinds a local name and has no
  effect on the world.
\<close>

definition main :: stmt where
  "main = eval_then init (\<lambda>bcs.
     if check_version bcs then
       block
         [ print ''BlenderCustomSettings: Apply custom settings...'',
           invoke ''setup_scene_cycles'' (setup_scene_cycles bcs),
           invoke ''setup_scene_shading'' (setup_scene_shading bcs),
           invoke ''setup_scene_outliner'' (setup_scene_outliner bcs),
           invoke ''setup_scene_clipping'' (setup_scene_clipping bcs),
           invoke ''setup_scene_scripting'' (setup_scene_scripting bcs),
           invoke ''setup_preferences'' (setup_preferences bcs) ]
     else
       block [ print ''BlenderCustomSettings: Unsupported version!'' ])"

section \<open>Specification-level notions\<close>

text \<open>
  Every space the host exposes, in the host's iteration order over screens, areas and
  spaces, each with its screen and its area.
\<close>

definition host_spaces :: "host \<Rightarrow> (obj \<times> screen \<times> area \<times> space) list" where
  "host_spaces h =
     concat (map (\<lambda>(i, sc).
       concat (map (\<lambda>(j, ar).
         map (\<lambda>(k, sp). (Space i j k, sc, ar, sp)) (enumerate 0 (area_spaces ar)))
         (enumerate 0 (screen_areas sc))))
       (enumerate 0 (data_screens h)))"

text \<open>
  The filters of \<^verbatim>\<open>get_spaces\<close> as predicates. A filter is in force when its
  argument is a non-empty value. A candidate is a space that passes the filters on
  screen name, area type and space type; the display mode is read of candidates only.
\<close>

definition screen_selected :: "string list option \<Rightarrow> screen \<Rightarrow> bool" where
  "screen_selected screen_names sc =
     (case screen_names of Some (n # ns) \<Rightarrow> screen_name sc \<in> set (n # ns) | _ \<Rightarrow> True)"

definition mode_selected :: "string option \<Rightarrow> space \<Rightarrow> bool" where
  "mode_selected display_mode sp =
     (case display_mode of
        Some (d # ds) \<Rightarrow> space_display_mode sp = Some (d # ds)
      | _ \<Rightarrow> True)"

definition candidate ::
  "string \<Rightarrow> string list option \<Rightarrow> obj \<times> screen \<times> area \<times> space \<Rightarrow> bool" where
  "candidate type_name screen_names =
     (\<lambda>(ob, sc, ar, sp).
        screen_selected screen_names sc \<and> area_type ar = type_name
        \<and> space_type sp = type_name)"

definition selected ::
  "string \<Rightarrow> string option \<Rightarrow> string list option \<Rightarrow> obj \<times> screen \<times> area \<times> space \<Rightarrow> bool" where
  "selected type_name display_mode screen_names =
     (\<lambda>(ob, sc, ar, sp).
        candidate type_name screen_names (ob, sc, ar, sp) \<and> mode_selected display_mode sp)"

text \<open>
  The candidates whose display mode cannot be read: none when no display mode is in
  force, otherwise the candidates without the attribute.
\<close>

definition lacking ::
  "string \<Rightarrow> string option \<Rightarrow> string list option \<Rightarrow> host
     \<Rightarrow> (obj \<times> screen \<times> area \<times> space) list" where
  "lacking type_name display_mode screen_names h =
     (case display_mode of
        Some (d # ds) \<Rightarrow>
          filter (\<lambda>(ob, sc, ar, sp).
                    candidate type_name screen_names (ob, sc, ar, sp)
                    \<and> space_display_mode sp = None)
            (host_spaces h)
      | _ \<Rightarrow> [])"

text \<open>
  The selection as the specification words it: the space's type, the display mode when
  one is given, the screen's name when names are given. The area's type is not part of
  it.
\<close>

definition spec_selected ::
  "string \<Rightarrow> string option \<Rightarrow> string list option \<Rightarrow> obj \<times> screen \<times> area \<times> space \<Rightarrow> bool" where
  "spec_selected type_name display_mode screen_names =
     (\<lambda>(ob, sc, ar, sp).
        space_type sp = type_name
        \<and> (case display_mode of None \<Rightarrow> True | Some d \<Rightarrow> space_display_mode sp = Some d)
        \<and> (case screen_names of None \<Rightarrow> True | Some ns \<Rightarrow> screen_name sc \<in> set ns))"

definition spec_get_spaces ::
  "host \<Rightarrow> string \<Rightarrow> string option \<Rightarrow> string list option \<Rightarrow> obj list" where
  "spec_get_spaces h type_name display_mode screen_names =
     map fst (filter (spec_selected type_name display_mode screen_names) (host_spaces h))"

text \<open>
  What one area and one screen contribute to the result of \<^verbatim>\<open>get_spaces\<close>, and
  whether the display mode of one of their spaces is read and missing.
\<close>

definition area_found ::
  "string \<Rightarrow> string option \<Rightarrow> nat \<Rightarrow> nat \<times> area \<Rightarrow> obj list" where
  "area_found type_name display_mode i =
     (\<lambda>(j, ar).
        map (\<lambda>(k, sp). Space i j k)
          (filter (\<lambda>(k, sp). mode_selected display_mode sp)
             (filter (\<lambda>(k, sp). space_type sp = type_name) (enumerate 0 (area_spaces ar)))))"

definition screen_found ::
  "string \<Rightarrow> string option \<Rightarrow> nat \<times> screen \<Rightarrow> obj list" where
  "screen_found type_name display_mode =
     (\<lambda>(i, sc).
        concat (map (area_found type_name display_mode i)
          (filter (\<lambda>(j, ar). area_type ar = type_name) (enumerate 0 (screen_areas sc)))))"

definition mode_in_force :: "string option \<Rightarrow> bool" where
  "mode_in_force display_mode = (case display_mode of Some (d # ds) \<Rightarrow> True | _ \<Rightarrow> False)"

definition area_lacks :: "string \<Rightarrow> string option \<Rightarrow> area \<Rightarrow> bool" where
  "area_lacks type_name display_mode ar =
     (mode_in_force display_mode
      \<and> list_ex (\<lambda>sp. space_type sp = type_name \<and> space_display_mode sp = None)
            (area_spaces ar))"

definition screen_lacks :: "string \<Rightarrow> string option \<Rightarrow> screen \<Rightarrow> bool" where
  "screen_lacks type_name display_mode sc =
     list_ex (\<lambda>ar. area_type ar = type_name \<and> area_lacks type_name display_mode ar)
       (screen_areas sc)"

text \<open>
  The objects \<^verbatim>\<open>setup_scene_clipping\<close> writes to, and the store it leaves: the two
  clipping attributes of each target, everything else as it was.
\<close>

definition clip_targets :: "host \<Rightarrow> obj list" where
  "clip_targets h =
     map fst (filter (\<lambda>(ob, sc, ar, sp). area_type ar = ''VIEW_3D'' \<and> space_type sp = ''VIEW_3D'')
                (host_spaces h))
     @ map Camera [0..<length (data_cameras h)]"

definition clipped :: "host \<Rightarrow> (obj \<rightharpoonup> pyval)" where
  "clipped h =
     (\<lambda>loc.
        if loc \<in> (\<lambda>ob. Attr ob ''clip_end'') ` set (clip_targets h) then Some (VInt 1000)
        else if loc \<in> (\<lambda>ob. Attr ob ''clip_start'') ` set (clip_targets h)
          then Some (VFloat (double_of_rat (1 / 1000)))
        else props h loc)"

text \<open>
  The enumeration values the setters assign, by attribute name, and the host that takes
  them all.
\<close>

definition script_enums :: "(string \<times> string) list" where
  "script_enums =
     [ (''engine'', ''CYCLES''), (''feature_set'', ''EXPERIMENTAL''), (''device'', ''GPU''),
       (''denoising_optix_input_passes'', ''RGB_ALBEDO''), (''preview_denoising'', ''NONE''),
       (''threads_mode'', ''AUTO''), (''type'', ''SOLID''), (''light'', ''STUDIO''),
       (''color_type'', ''RANDOM''), (''cavity_type'', ''BOTH''),
       (''ui_line_width'', ''AUTO''), (''language'', ''ja_JP''),
       (''spacebar_action'', ''SEARCH''), (''compute_device_type'', ''OPTIX'') ]"

definition accepts_script_enums :: "host \<Rightarrow> bool" where
  "accepts_script_enums h =
     (\<forall>ob a s. (a, s) \<in> set script_enums \<longrightarrow> enum_accepts h (Attr ob a) s)"

text \<open>
  The host facts the setters rely on: a first theme and the add-on entry for
  \<^verbatim>\<open>setup_preferences\<close>, a readable display mode on the outliners for
  \<^verbatim>\<open>setup_scene_outliner\<close>, and a host that takes the enumeration values. Then the
  case where only the add-on entry is missing.
\<close>

definition prefs_ready :: "host \<Rightarrow> bool" where
  "prefs_ready h =
     (pref_themes h \<noteq> [] \<and> ''cycles'' \<in> set (pref_addons h)
      \<and> accepts_script_enums h
      \<and> lacking ''OUTLINER'' (Some ''VIEW_LAYER'') None h = [])"




text \<open>The classification the entry point makes of a host: an exception, or the guard.\<close>

definition version_guard :: "host \<Rightarrow> exn + bool" where
  "version_guard h = (case init h of Inl e \<Rightarrow> Inl e | Inr self \<Rightarrow> Inr (check_version self))"

subsection \<open>Sample hosts\<close>

text \<open>
  One screen with two areas. The 3D viewport area also keeps an outliner it showed
  before, and the outliner area keeps a 3D viewport: an area lists every editor it has
  held, the one in use first. A 3D viewport has no display mode. The sample host takes
  every enumeration value.
\<close>

definition sample_screens :: "screen list" where
  "sample_screens =
     [ \<lparr>screen_name = ''Layout'',
        screen_areas =
          [ \<lparr>area_type = ''VIEW_3D'',
             area_spaces =
               [ \<lparr>space_type = ''VIEW_3D'', space_display_mode = None\<rparr>,
                 \<lparr>space_type = ''OUTLINER'', space_display_mode = Some ''VIEW_LAYER''\<rparr> ]\<rparr>,
            \<lparr>area_type = ''OUTLINER'',
             area_spaces =
               [ \<lparr>space_type = ''OUTLINER'', space_display_mode = Some ''VIEW_LAYER''\<rparr>,
                 \<lparr>space_type = ''VIEW_3D'', space_display_mode = None\<rparr> ]\<rparr> ]\<rparr> ]"

definition sample_host :: "string \<Rightarrow> string list \<Rightarrow> host" where
  "sample_host version addons =
     \<lparr>app_version_string = version, data_screens = sample_screens,
      data_cameras = [''Camera''], pref_themes = [''Default''], pref_addons = addons,
      enum_accepts = (\<lambda>loc s. True), props = Map.empty\<rparr>"

definition sample_world :: "string \<Rightarrow> string list \<Rightarrow> world" where
  "sample_world version addons = \<lparr>bpy = sample_host version addons, stdout = [], invoked = []\<rparr>"

definition sample_self :: "rat \<Rightarrow> bcs" where
  "sample_self v = \<lparr>ver = double_of_rat v, supports = [double_of_rat (283 / 100)]\<rparr>"

section \<open>Facts about the model\<close>

subsection \<open>Floats and the version guard\<close>

lemma double_of_rat_not_NaN: "double_of_rat x \<noteq> NaN"
  by (simp add: double_of_rat_def Let_def)

lemma py_in_singleton: "py_in x [double_of_rat y] = (x = double_of_rat y)"
  using double_of_rat_not_NaN[of y] by (auto simp add: py_in_def float_eq_def)

lemma python_float_283: "python_float ''2.83'' = Inr (double_of_rat (283 / 100))"
  by (simp add: python_float_def strip_spaces_def is_space_def is_digit_def
        parse_decimal_def digits_value_def digit_value_def pow10_def)

lemma python_float_290: "python_float ''2.90'' = Inr (double_of_rat (29 / 10))"
  by (simp add: python_float_def strip_spaces_def is_space_def is_digit_def
        parse_decimal_def digits_value_def digit_value_def pow10_def)

lemma python_float_30dot: "python_float ''3.0.'' = Inl ValueError"
  by (simp add: python_float_def strip_spaces_def is_space_def is_digit_def
        parse_decimal_def digits_value_def digit_value_def pow10_def parse_inf_or_nan_def
        lower_def)

lemma doubles_differ: "double_of_rat (29 / 10) \<noteq> double_of_rat (283 / 100)"
  by code_simp

lemma init_sample_283: "init (sample_host ''2.83.0'' ads) = Inr (sample_self (283 / 100))"
  by (simp add: init_def sample_host_def sample_self_def python_float_283)

lemma init_sample_290: "init (sample_host ''2.90.0'' ads) = Inr (sample_self (29 / 10))"
  by (simp add: init_def sample_host_def sample_self_def python_float_290)

lemma init_sample_300: "init (sample_host ''3.0.0'' ads) = Inl ValueError"
  by (simp add: init_def sample_host_def python_float_30dot)


lemma check_sample_290: "\<not> check_version (sample_self (29 / 10))"
  by (simp add: check_version_def sample_self_def py_in_singleton doubles_differ)

subsection \<open>The loops of \<^verbatim>\<open>get_spaces\<close> as a filter\<close>

lemma filter_display_mode_result:
  "filter_display_mode d ys
   = (if list_ex (\<lambda>(k, sp). space_display_mode sp = None) ys then Inl AttributeError
      else Inr (filter (\<lambda>(k, sp). space_display_mode sp = Some d) ys))"
  by (induction d ys rule: filter_display_mode.induct) (auto split: option.splits)

lemma fold_append_map:
  "fold (\<lambda>(k, space) target_spaces. target_spaces @ [Space i j k]) ys acc
   = acc @ map (\<lambda>(k, sp). Space i j k) ys"
  by (induction ys arbitrary: acc) (simp_all add: case_prod_beta)

lemma fold_err_append:
  assumes "\<And>x acc. F x acc = (if bad x then Inl e else Inr (acc @ f x))"
  shows "fold_err F xs acc
         = (if list_ex bad xs then Inl e else Inr (acc @ concat (map f xs)))"
  by (induction xs arbitrary: acc) (simp_all add: assms)

lemma list_ex_filter_enumerate:
  "list_ex (\<lambda>(k, x). P x) (filter (\<lambda>(k, x). Q x) (enumerate n xs))
   = list_ex (\<lambda>x. Q x \<and> P x) xs"
  by (induction xs arbitrary: n) auto

lemma list_ex_filter_enumerate_snd:
  "list_ex (\<lambda>p. P (snd p)) (filter (\<lambda>(k, x). Q x) (enumerate n xs))
   = list_ex (\<lambda>x. Q x \<and> P x) xs"
  by (induction xs arbitrary: n) auto

lemma list_ex_enumerate:
  "list_ex (\<lambda>(k, x). P x) (enumerate n xs) = list_ex P xs"
  by (induction xs arbitrary: n) auto

lemma area_step:
  "(case x of (j, area) \<Rightarrow> \<lambda>target_spaces.
      case (case display_mode of
                 Some (d # ds) \<Rightarrow> filter_display_mode (d # ds)
                   (filter (\<lambda>(k, sp). space_type sp = type_name)
                      (enumerate 0 (area_spaces area)))
               | _ \<Rightarrow> Inr (filter (\<lambda>(k, sp). space_type sp = type_name)
                      (enumerate 0 (area_spaces area)))) of
           Inl e \<Rightarrow> Inl e
         | Inr spaces1 \<Rightarrow>
             Inr (fold (\<lambda>(k, space) target_spaces. target_spaces @ [Space i j k])
                    spaces1 target_spaces)) acc
   = (if area_lacks type_name display_mode (snd x) then Inl AttributeError
      else Inr (acc @ area_found type_name display_mode i x))"
  by (cases x)
     (simp add: Let_def filter_display_mode_result fold_append_map area_found_def
        area_lacks_def mode_in_force_def mode_selected_def list_ex_filter_enumerate
        split: option.splits list.splits)

lemma screen_step:
  "(case y of (i, screen) \<Rightarrow> \<lambda>target_spaces.
      fold_err (\<lambda>(j, area) target_spaces.
        case (case display_mode of
                 Some (d # ds) \<Rightarrow> filter_display_mode (d # ds)
                   (filter (\<lambda>(k, sp). space_type sp = type_name)
                      (enumerate 0 (area_spaces area)))
               | _ \<Rightarrow> Inr (filter (\<lambda>(k, sp). space_type sp = type_name)
                      (enumerate 0 (area_spaces area)))) of
             Inl e \<Rightarrow> Inl e
           | Inr spaces1 \<Rightarrow>
               Inr (fold (\<lambda>(k, space) target_spaces. target_spaces @ [Space i j k])
                      spaces1 target_spaces))
        (filter (\<lambda>(j, area). area_type area = type_name)
           (enumerate 0 (screen_areas screen)))
        target_spaces) acc
   = (if screen_lacks type_name display_mode (snd y) then Inl AttributeError
      else Inr (acc @ screen_found type_name display_mode y))"
proof (cases y)
  case (Pair i screen)
  have "fold_err (\<lambda>(j, area) target_spaces.
        case (case display_mode of
                 Some (d # ds) \<Rightarrow> filter_display_mode (d # ds)
                   (filter (\<lambda>(k, sp). space_type sp = type_name)
                      (enumerate 0 (area_spaces area)))
               | _ \<Rightarrow> Inr (filter (\<lambda>(k, sp). space_type sp = type_name)
                      (enumerate 0 (area_spaces area)))) of
             Inl e \<Rightarrow> Inl e
           | Inr spaces1 \<Rightarrow>
               Inr (fold (\<lambda>(k, space) target_spaces. target_spaces @ [Space i j k])
                      spaces1 target_spaces))
        (filter (\<lambda>(j, area). area_type area = type_name)
           (enumerate 0 (screen_areas screen))) acc
     = (if list_ex (\<lambda>x. area_lacks type_name display_mode (snd x))
             (filter (\<lambda>(j, area). area_type area = type_name)
                (enumerate 0 (screen_areas screen)))
        then Inl AttributeError
        else Inr (acc @ concat (map (area_found type_name display_mode i)
               (filter (\<lambda>(j, area). area_type area = type_name)
                  (enumerate 0 (screen_areas screen))))))"
    by (rule fold_err_append) (rule area_step)
  moreover have "list_ex (\<lambda>x. area_lacks type_name display_mode (snd x))
             (filter (\<lambda>(j, area). area_type area = type_name)
                (enumerate 0 (screen_areas screen)))
        = screen_lacks type_name display_mode screen"
    by (simp add: screen_lacks_def list_ex_filter_enumerate_snd)
  ultimately show ?thesis
    by (simp add: Pair screen_found_def)
qed

lemma screen_filter:
  "(case screen_names of
      Some (n # ns) \<Rightarrow> filter (\<lambda>(i, sc). screen_name sc \<in> set (n # ns)) xs
    | _ \<Rightarrow> xs) = filter (\<lambda>(i, sc). screen_selected screen_names sc) xs"
  by (simp add: screen_selected_def split: option.splits list.splits)

lemma get_spaces_concat:
  "get_spaces self h type_name display_mode screen_names
   = (if list_ex (\<lambda>sc. screen_selected screen_names sc \<and> screen_lacks type_name display_mode sc)
          (data_screens h)
      then Inl AttributeError
      else Inr (concat (map (screen_found type_name display_mode)
             (filter (\<lambda>(i, sc). screen_selected screen_names sc)
                (enumerate 0 (data_screens h))))))"
proof -
  have "list_ex (\<lambda>y. screen_lacks type_name display_mode (snd y))
          (filter (\<lambda>(i, sc). screen_selected screen_names sc) (enumerate 0 (data_screens h)))
        = list_ex (\<lambda>sc. screen_selected screen_names sc \<and> screen_lacks type_name display_mode sc)
          (data_screens h)"
    by (simp add: list_ex_filter_enumerate_snd)
  moreover have "fold_err (\<lambda>(i, screen) target_spaces.
      fold_err (\<lambda>(j, area) target_spaces.
        case (case display_mode of
                 Some (d # ds) \<Rightarrow> filter_display_mode (d # ds)
                   (filter (\<lambda>(k, sp). space_type sp = type_name)
                      (enumerate 0 (area_spaces area)))
               | _ \<Rightarrow> Inr (filter (\<lambda>(k, sp). space_type sp = type_name)
                      (enumerate 0 (area_spaces area)))) of
             Inl e \<Rightarrow> Inl e
           | Inr spaces1 \<Rightarrow>
               Inr (fold (\<lambda>(k, space) target_spaces. target_spaces @ [Space i j k])
                      spaces1 target_spaces))
        (filter (\<lambda>(j, area). area_type area = type_name)
           (enumerate 0 (screen_areas screen)))
        target_spaces) xs []
     = (if list_ex (\<lambda>y. screen_lacks type_name display_mode (snd y)) xs
        then Inl AttributeError
        else Inr ([] @ concat (map (screen_found type_name display_mode) xs)))" for xs
    by (rule fold_err_append) (rule screen_step)
  ultimately show ?thesis
    unfolding get_spaces_def Let_def screen_filter by simp
qed

lemma space_level:
  "map fst (filter (selected type_name display_mode screen_names)
      (map (\<lambda>(k, sp). (Space i j k, sc, ar, sp)) ys))
   = (if screen_selected screen_names sc \<and> area_type ar = type_name
      then map (\<lambda>(k, sp). Space i j k)
             (filter (\<lambda>(k, sp). mode_selected display_mode sp)
                (filter (\<lambda>(k, sp). space_type sp = type_name) ys))
      else [])"
  by (induction ys) (auto simp add: selected_def candidate_def)

lemma area_level:
  "map fst (filter (selected type_name display_mode screen_names)
     (concat (map (\<lambda>(j, ar).
         map (\<lambda>(k, sp). (Space i j k, sc, ar, sp)) (enumerate 0 (area_spaces ar))) zs)))
   = (if screen_selected screen_names sc
      then concat (map (area_found type_name display_mode i)
             (filter (\<lambda>(j, ar). area_type ar = type_name) zs))
      else [])"
proof (induction zs)
  case Nil
  show ?case by simp
next
  case (Cons z zs)
  obtain j ar where z: "z = (j, ar)" by (cases z)
  have "map fst (filter (selected type_name display_mode screen_names)
          (concat (map (\<lambda>(j, ar).
             map (\<lambda>(k, sp). (Space i j k, sc, ar, sp)) (enumerate 0 (area_spaces ar))) (z # zs))))
        = map fst (filter (selected type_name display_mode screen_names)
            (map (\<lambda>(k, sp). (Space i j k, sc, ar, sp)) (enumerate 0 (area_spaces ar))))
          @ map fst (filter (selected type_name display_mode screen_names)
              (concat (map (\<lambda>(j, ar).
                 map (\<lambda>(k, sp). (Space i j k, sc, ar, sp)) (enumerate 0 (area_spaces ar))) zs)))"
    by (simp add: z)
  also have "\<dots> = (if screen_selected screen_names sc \<and> area_type ar = type_name
                     then area_found type_name display_mode i (j, ar) else [])
                  @ (if screen_selected screen_names sc
                     then concat (map (area_found type_name display_mode i)
                            (filter (\<lambda>(j, ar). area_type ar = type_name) zs))
                     else [])"
    unfolding space_level Cons.IH by (simp add: area_found_def)
  also have "\<dots> = (if screen_selected screen_names sc
                     then concat (map (area_found type_name display_mode i)
                            (filter (\<lambda>(j, ar). area_type ar = type_name) (z # zs)))
                     else [])"
    by (simp add: z)
  finally show ?case .
qed

lemma screen_level:
  "map fst (filter (selected type_name display_mode screen_names)
     (concat (map (\<lambda>(i, sc).
       concat (map (\<lambda>(j, ar).
         map (\<lambda>(k, sp). (Space i j k, sc, ar, sp)) (enumerate 0 (area_spaces ar)))
         (enumerate 0 (screen_areas sc)))) xs)))
   = concat (map (screen_found type_name display_mode)
       (filter (\<lambda>(i, sc). screen_selected screen_names sc) xs))"
proof (induction xs)
  case Nil
  show ?case by simp
next
  case (Cons x xs)
  obtain i sc where x: "x = (i, sc)" by (cases x)
  have "map fst (filter (selected type_name display_mode screen_names)
     (concat (map (\<lambda>(i, sc).
       concat (map (\<lambda>(j, ar).
         map (\<lambda>(k, sp). (Space i j k, sc, ar, sp)) (enumerate 0 (area_spaces ar)))
         (enumerate 0 (screen_areas sc)))) (x # xs))))
     = map fst (filter (selected type_name display_mode screen_names)
         (concat (map (\<lambda>(j, ar).
            map (\<lambda>(k, sp). (Space i j k, sc, ar, sp)) (enumerate 0 (area_spaces ar)))
            (enumerate 0 (screen_areas sc)))))
       @ map fst (filter (selected type_name display_mode screen_names)
          (concat (map (\<lambda>(i, sc).
            concat (map (\<lambda>(j, ar).
              map (\<lambda>(k, sp). (Space i j k, sc, ar, sp)) (enumerate 0 (area_spaces ar)))
              (enumerate 0 (screen_areas sc)))) xs)))"
    by (simp add: x)
  also have "\<dots> = (if screen_selected screen_names sc
                     then screen_found type_name display_mode (i, sc) else [])
                  @ concat (map (screen_found type_name display_mode)
                      (filter (\<lambda>(i, sc). screen_selected screen_names sc) xs))"
    unfolding area_level Cons.IH by (simp add: screen_found_def)
  also have "\<dots> = concat (map (screen_found type_name display_mode)
                      (filter (\<lambda>(i, sc). screen_selected screen_names sc) (x # xs)))"
    by (simp add: x)
  finally show ?case .
qed


lemma lacking_space_level:
  "(filter (\<lambda>(ob, sc, ar, sp). candidate type_name screen_names (ob, sc, ar, sp)
                \<and> space_display_mode sp = None)
      (map (\<lambda>(k, sp). (Space i j k, sc, ar, sp)) ys) = [])
   = (\<not> (screen_selected screen_names sc \<and> area_type ar = type_name
         \<and> list_ex (\<lambda>(k, sp). space_type sp = type_name \<and> space_display_mode sp = None) ys))"
  by (induction ys) (auto simp add: candidate_def)

lemma lacking_area_level:
  "(filter (\<lambda>(ob, sc, ar, sp). candidate type_name screen_names (ob, sc, ar, sp)
                \<and> space_display_mode sp = None)
      (concat (map (\<lambda>(j, ar).
          map (\<lambda>(k, sp). (Space i j k, sc, ar, sp)) (enumerate 0 (area_spaces ar))) zs)) = [])
   = (\<not> (screen_selected screen_names sc
         \<and> list_ex (\<lambda>(j, ar). area_type ar = type_name
               \<and> list_ex (\<lambda>sp. space_type sp = type_name \<and> space_display_mode sp = None)
                    (area_spaces ar)) zs))"
proof (induction zs)
  case Nil
  show ?case by simp
next
  case (Cons z zs)
  obtain j ar where z: "z = (j, ar)" by (cases z)
  show ?case
    using Cons.IH
    by (auto simp add: z lacking_space_level list_ex_enumerate)
qed

lemma lacking_screen_level:
  "(filter (\<lambda>(ob, sc, ar, sp). candidate type_name screen_names (ob, sc, ar, sp)
                \<and> space_display_mode sp = None)
      (concat (map (\<lambda>(i, sc).
         concat (map (\<lambda>(j, ar).
           map (\<lambda>(k, sp). (Space i j k, sc, ar, sp)) (enumerate 0 (area_spaces ar)))
           (enumerate 0 (screen_areas sc)))) xs)) = [])
   = (\<not> list_ex (\<lambda>(i, sc). screen_selected screen_names sc
         \<and> list_ex (\<lambda>ar. area_type ar = type_name
               \<and> list_ex (\<lambda>sp. space_type sp = type_name \<and> space_display_mode sp = None)
                    (area_spaces ar)) (screen_areas sc)) xs)"
proof (induction xs)
  case Nil
  show ?case by simp
next
  case (Cons x xs)
  obtain i sc where x: "x = (i, sc)" by (cases x)
  show ?case
    using Cons.IH
    by (auto simp add: x lacking_area_level list_ex_enumerate)
qed

lemma lacking_levels:
  "(lacking type_name display_mode screen_names h = [])
   = (\<not> list_ex (\<lambda>sc. screen_selected screen_names sc \<and> screen_lacks type_name display_mode sc)
          (data_screens h))"
proof (cases "mode_in_force display_mode")
  case False
  then show ?thesis
    by (auto simp add: lacking_def screen_lacks_def area_lacks_def mode_in_force_def list_ex_iff
          split: option.splits list.splits)
next
  case True
  then obtain d ds where dm: "display_mode = Some (d # ds)"
    by (auto simp add: mode_in_force_def split: option.splits list.splits)
  show ?thesis
    by (simp add: dm lacking_def host_spaces_def lacking_screen_level list_ex_enumerate
          screen_lacks_def area_lacks_def mode_in_force_def)
qed

lemma get_spaces_result:
  "get_spaces self h type_name display_mode screen_names
   = (if lacking type_name display_mode screen_names h = []
      then Inr (map fst (filter (selected type_name display_mode screen_names) (host_spaces h)))
      else Inl AttributeError)"
  by (simp add: get_spaces_concat lacking_levels host_spaces_def screen_level)

subsection \<open>Statements that run through\<close>

lemma lacking_no_mode [simp]: "lacking type_name None screen_names h = []"
  by (simp add: lacking_def)

lemma host_spaces_props [simp]: "host_spaces (h\<lparr>props := p\<rparr>) = host_spaces h"
  by (simp add: host_spaces_def)

lemma lacking_props [simp]:
  "lacking type_name display_mode screen_names (h\<lparr>props := p\<rparr>)
   = lacking type_name display_mode screen_names h"
  by (simp add: lacking_def split: option.splits list.splits)



































subsection \<open>The effect of the two clipping loops\<close>

lemma for_each_two_attrs:
  "for_each xs (\<lambda>x. block [setattr x a (VFloat f), setattr x b (VInt n)]) w
   = (None, w\<lparr>bpy := (bpy w)\<lparr>props :=
        fold (\<lambda>x p. p(Attr x a \<mapsto> VFloat f, Attr x b \<mapsto> VInt n)) xs (props (bpy w))\<rparr>\<rparr>)"
proof (induction xs arbitrary: w)
  case Nil
  show ?case by (simp add: for_each_def)
next
  case (Cons x xs)
  have "for_each (x # xs) (\<lambda>x. block [setattr x a (VFloat f), setattr x b (VInt n)]) w
        = for_each xs (\<lambda>x. block [setattr x a (VFloat f), setattr x b (VInt n)])
            (w\<lparr>bpy := (bpy w)\<lparr>props :=
               (props (bpy w))(Attr x a \<mapsto> VFloat f, Attr x b \<mapsto> VInt n)\<rparr>\<rparr>)"
    by (simp add: for_each_def setattr_def assign_def store_def)
  also have "\<dots> = (None, w\<lparr>bpy := (bpy w)\<lparr>props :=
        fold (\<lambda>x p. p(Attr x a \<mapsto> VFloat f, Attr x b \<mapsto> VInt n)) (x # xs) (props (bpy w))\<rparr>\<rparr>)"
    unfolding Cons.IH by simp
  finally show ?case .
qed

lemma fold_two_attrs_lookup:
  assumes "a \<noteq> b"
  shows "fold (\<lambda>x p. p(Attr x a \<mapsto> u, Attr x b \<mapsto> v)) xs p loc
         = (if loc \<in> (\<lambda>ob. Attr ob b) ` set xs then Some v
            else if loc \<in> (\<lambda>ob. Attr ob a) ` set xs then Some u
            else p loc)"
  using assms by (induction xs arbitrary: p) auto

lemma get_spaces_view3d:
  "get_spaces self h ''VIEW_3D'' None None
   = Inr (map fst (filter (\<lambda>(ob, sc, ar, sp). area_type ar = ''VIEW_3D'' \<and> space_type sp = ''VIEW_3D'')
                     (host_spaces h)))"
  by (simp add: get_spaces_result selected_def candidate_def screen_selected_def
        mode_selected_def)

lemma clipping_run:
  "setup_scene_clipping self w = (None, w\<lparr>bpy := (bpy w)\<lparr>props := clipped (bpy w)\<rparr>\<rparr>)"
proof -
  let ?start = "VFloat (double_of_rat (1 / 1000))" and ?end = "VInt 1000"
  let ?sp = "map fst (filter (\<lambda>(ob, sc, ar, sp). area_type ar = ''VIEW_3D'' \<and> space_type sp = ''VIEW_3D'')
                     (host_spaces (bpy w)))"
  let ?cams = "map Camera [0..<length (data_cameras (bpy w))]"
  let ?upd = "\<lambda>x p. p(Attr x ''clip_start'' \<mapsto> ?start, Attr x ''clip_end'' \<mapsto> ?end)"
  have run: "setup_scene_clipping self w
        = (None, w\<lparr>bpy := (bpy w)\<lparr>props := fold ?upd ?cams (fold ?upd ?sp (props (bpy w)))\<rparr>\<rparr>)"
    by (simp add: setup_scene_clipping_def Let_def eval_then_def for_each_two_attrs
          get_spaces_view3d)
  have "fold ?upd ?cams (fold ?upd ?sp (props (bpy w))) = clipped (bpy w)"
  proof (rule ext)
    fix loc
    show "fold ?upd ?cams (fold ?upd ?sp (props (bpy w))) loc = clipped (bpy w) loc"
      unfolding clipped_def clip_targets_def
      by (auto simp add: fold_two_attrs_lookup image_Un)
  qed
  with run show ?thesis by simp
qed

subsection \<open>The sample hosts\<close>

lemma sample_spaces:
  "host_spaces (sample_host v ads) =
   [ (Space 0 0 0, sample_screens ! 0, screen_areas (sample_screens ! 0) ! 0,
        \<lparr>space_type = ''VIEW_3D'', space_display_mode = None\<rparr>),
     (Space 0 0 1, sample_screens ! 0, screen_areas (sample_screens ! 0) ! 0,
        \<lparr>space_type = ''OUTLINER'', space_display_mode = Some ''VIEW_LAYER''\<rparr>),
     (Space 0 1 0, sample_screens ! 0, screen_areas (sample_screens ! 0) ! 1,
        \<lparr>space_type = ''OUTLINER'', space_display_mode = Some ''VIEW_LAYER''\<rparr>),
     (Space 0 1 1, sample_screens ! 0, screen_areas (sample_screens ! 0) ! 1,
        \<lparr>space_type = ''VIEW_3D'', space_display_mode = None\<rparr>) ]"
  by (simp add: host_spaces_def sample_host_def sample_screens_def enumerate_eq_zip upt_rec)

lemma sample_get_view3d:
  "get_spaces self (sample_host v ads) ''VIEW_3D'' None None = Inr [Space 0 0 0]"
  by (simp add: get_spaces_result sample_spaces selected_def candidate_def sample_screens_def
        screen_selected_def mode_selected_def)

lemma sample_spec_view3d:
  "spec_get_spaces (sample_host v ads) ''VIEW_3D'' None None = [Space 0 0 0, Space 0 1 1]"
  by (simp add: spec_get_spaces_def sample_spaces spec_selected_def sample_screens_def)

lemma sample_view3d_mode_raises:
  "get_spaces self (sample_host v ads) ''VIEW_3D'' (Some ''VIEW_LAYER'') None
   = Inl AttributeError"
  by (simp add: get_spaces_result lacking_def sample_spaces candidate_def sample_screens_def
        screen_selected_def)

lemma sample_view3d_mode_no_match:
  "filter (spec_selected ''VIEW_3D'' (Some ''VIEW_LAYER'') None)
     (host_spaces (sample_host v ads)) = []"
  by (simp add: sample_spaces spec_selected_def)

lemma sample_outliners_readable:
  "lacking ''OUTLINER'' (Some m) None (sample_host v ads) = []"
  by (cases m)
     (simp_all add: lacking_def sample_spaces candidate_def sample_screens_def
        screen_selected_def)

lemma sample_accepts: "accepts_script_enums (sample_host v ads)"
  by (simp add: accepts_script_enums_def sample_host_def)

lemma sample_prefs_ready: "prefs_ready (sample_host v [''cycles''])"
  by (simp add: prefs_ready_def sample_accepts sample_outliners_readable)
     (simp add: sample_host_def)


text \<open>
  The host's refusal of an enumeration value is a path of the model: when the host does
  not know the render engine, the first assignment of the first setter raises.
\<close>

lemma rejected_engine_raises:
  assumes "init (bpy w) = Inr self" and "check_version self"
    and "\<not> enum_accepts (bpy w) (Attr (Attr Scene ''render'') ''engine'') ''CYCLES''"
  shows "fst (main w) = Some TypeError
       \<and> invoked (snd (main w)) = invoked w @ [''setup_scene_cycles'']
       \<and> bpy (snd (main w)) = bpy w"
  using assms
  by (simp add: main_def eval_then_def print_def invoke_def setup_scene_cycles_def Let_def
        setattr_def assign_def)

section \<open>The claims\<close>

text \<open>
  C1. When the detected version is not in the supported list, running the entry point
  prints the line "BlenderCustomSettings: Unsupported version!" and does nothing else:
  no setter routine is entered and the host is left as it was. The detected version is
  the one the constructor computed, so the host is one on which the constructor returns.
\<close>

theorem unsupported_version_prints_only:
  assumes "init (bpy w) = Inr self" and "\<not> check_version self"
  shows "main w
         = (None, w\<lparr>stdout := stdout w @ [''BlenderCustomSettings: Unsupported version!'']\<rparr>)"
  using assms by (simp add: main_def eval_then_def print_def)

theorem unsupported_version_prints_only_witness:
  "main (sample_world ''2.90.0'' [''cycles''])
   = (None, (sample_world ''2.90.0'' [''cycles''])
        \<lparr>stdout := [''BlenderCustomSettings: Unsupported version!'']\<rparr>)"
proof -
  have 1: "init (bpy (sample_world ''2.90.0'' [''cycles''])) = Inr (sample_self (29 / 10))"
    by (simp add: sample_world_def init_sample_290)
  show ?thesis
    using unsupported_version_prints_only[OF 1 check_sample_290]
    by (simp add: sample_world_def)
qed




text \<open>
  C3. For the settings object the constructor builds on a host: its version is the first
  four characters of the host's version string read as a float, its supported list holds
  exactly the float 2.83, and check_version is true exactly when the version is a member
  of that list.
\<close>

theorem check_version_iff_member:
  assumes "init h = Inr self"
  shows "python_float (take 4 (app_version_string h)) = Inr (ver self)
         \<and> supports self = [double_of_rat (283 / 100)]
         \<and> check_version self = (ver self \<in> set (supports self))"
  using assms
  by (auto simp add: init_def check_version_def py_in_singleton split: sum.splits)

theorem check_version_iff_member_witness:
  "python_float (take 4 (app_version_string (sample_host ''2.83.0'' [''cycles''])))
     = Inr (ver (sample_self (283 / 100)))
   \<and> supports (sample_self (283 / 100)) = [double_of_rat (283 / 100)]
   \<and> check_version (sample_self (283 / 100))"
  using check_version_iff_member[OF init_sample_283[of "[''cycles'']"]]
  by (simp add: sample_self_def)

text \<open>
  C4, as stated, fails: a space of the requested type that lies in an area of another
  type satisfies every predicate the claim lists, and get_spaces leaves it out.
\<close>

theorem get_spaces_skips_other_areas:
  "get_spaces (sample_self (283 / 100)) (sample_host ''2.83.0'' [''cycles'']) ''VIEW_3D'' None None
     = Inr [Space 0 0 0]
   \<and> spec_get_spaces (sample_host ''2.83.0'' [''cycles'']) ''VIEW_3D'' None None
     = [Space 0 0 0, Space 0 1 1]"
  by (simp add: sample_get_view3d sample_spec_view3d)

text \<open>
  C4, amended. For every type name, display mode and screen names, get_spaces looks at
  the candidates: the spaces whose type is the type name, in an area whose type is the
  type name, on a screen whose name is among the screen names when a non-empty list of
  names is given. When a non-empty display mode is given and some candidate has no
  display mode to read, get_spaces raises AttributeError. Otherwise it returns, in the
  host's iteration order over screens, areas and spaces, exactly the candidates, and
  when a non-empty display mode is given, exactly those whose display mode equals it.
\<close>

theorem get_spaces_is_filter:
  "get_spaces self h type_name display_mode screen_names
   = (if lacking type_name display_mode screen_names h = []
      then Inr (map fst (filter (selected type_name display_mode screen_names) (host_spaces h)))
      else Inl AttributeError)"
  by (rule get_spaces_result)

text \<open>
  C5. The claim holds of the specification and not of the code: on the host version
  string "3.0.0" the constructor reads "3.0." as a float, which raises ValueError, so
  the entry point ends with an exception before the version check, printing nothing.
\<close>

theorem version_3_0_0_raises:
  "main (sample_world ''3.0.0'' [''cycles''])
   = (Some ValueError, sample_world ''3.0.0'' [''cycles''])"
  by (simp add: main_def eval_then_def sample_world_def init_sample_300)

text \<open>
  C6, as stated, fails: a space of type VIEW_3D that lies in an area of another type is
  exposed by the host and is given no clipping distance.
\<close>

theorem clipping_skips_other_areas:
  "map (\<lambda>(ob, sc, ar, sp). (ob, space_type sp))
       (host_spaces (sample_host ''2.83.0'' [''cycles''])) ! 3
     = (Space 0 1 1, ''VIEW_3D'')
   \<and> props (bpy (snd (setup_scene_clipping (sample_self (283 / 100))
                        (sample_world ''2.83.0'' [''cycles'']))))
       (Attr (Space 0 1 1) ''clip_start'') = None"
  by (simp add: clipping_run clipped_def clip_targets_def sample_world_def sample_spaces)
     (simp add: sample_host_def sample_screens_def image_iff)

text \<open>
  C6, amended. setup_scene_clipping raises nothing, assigns clip_start = 0.001 and
  clip_end = 1000 to every space of type VIEW_3D that lies in an area of type VIEW_3D
  and to every camera of the host's camera collection, and changes nothing else: every
  other setting, the host's collections, the output and the record of entered routines
  are as before.
\<close>

theorem setup_scene_clipping_effect:
  "setup_scene_clipping self w = (None, w\<lparr>bpy := (bpy w)\<lparr>props := clipped (bpy w)\<rparr>\<rparr>)"
  by (rule clipping_run)

text \<open>
  C7. The outcome of get_spaces (its list, or its exception) is determined by its
  arguments and the host's screens, areas and spaces: two calls on hosts with the same
  screens have the same outcome, whatever the settings objects and the rest of the hosts
  are. A call leaves the world as it was: the statement that follows it runs on the same
  world, and an exception leaves the same world behind.
\<close>

theorem get_spaces_stateless:
  assumes "data_screens h1 = data_screens h2"
  shows "get_spaces self1 h1 type_name display_mode screen_names
           = get_spaces self2 h2 type_name display_mode screen_names
       \<and> eval_then (\<lambda>h. get_spaces self1 h type_name display_mode screen_names) k w
           = (case get_spaces self1 (bpy w) type_name display_mode screen_names of
                Inl e \<Rightarrow> (Some e, w)
              | Inr found \<Rightarrow> k found w)"
  using assms by (simp add: get_spaces_def eval_then_def)

theorem get_spaces_stateless_witness:
  "get_spaces (sample_self (283 / 100)) (sample_host ''2.83.0'' [''cycles'']) ''VIEW_3D'' None None
   = get_spaces (sample_self (29 / 10)) (sample_host ''2.90.0'' []) ''VIEW_3D'' None None"
proof -
  have 1: "data_screens (sample_host ''2.83.0'' [''cycles'']) = data_screens (sample_host ''2.90.0'' [])"
    by (simp add: sample_host_def)
  show ?thesis
    using get_spaces_stateless[OF 1] by simp
qed

text \<open>
  C8, as stated, fails: asking for the VIEW_3D spaces with a display mode matches no
  space, and the query raises AttributeError instead of returning the empty list,
  because a 3D viewport has no display mode to read.
\<close>

theorem get_spaces_empty_query_raises:
  "filter (spec_selected ''VIEW_3D'' (Some ''VIEW_LAYER'') None)
     (host_spaces (sample_host ''2.83.0'' [''cycles''])) = []
   \<and> get_spaces (sample_self (283 / 100)) (sample_host ''2.83.0'' [''cycles''])
       ''VIEW_3D'' (Some ''VIEW_LAYER'') None = Inl AttributeError"
  by (simp add: sample_view3d_mode_no_match sample_view3d_mode_raises)

text \<open>
  C8, amended. When no space passes the filters in force (the enclosing area's type and
  the space's type equal the type name; the space's display mode equals the display
  mode, if a non-empty one is given; the screen's name is among the screen names, if a
  non-empty list is given), and every display mode that has to be read can be read (no
  display mode is in force, or every space of the type name in an area of the type name
  on a searched screen has one), get_spaces returns the empty list and raises nothing.
\<close>

theorem get_spaces_no_match:
  assumes "\<forall>x \<in> set (host_spaces h). \<not> selected type_name display_mode screen_names x"
    and "lacking type_name display_mode screen_names h = []"
  shows "get_spaces self h type_name display_mode screen_names = Inr []"
  using assms by (simp add: get_spaces_result filter_empty_conv)

theorem get_spaces_no_match_witness:
  "get_spaces (sample_self (283 / 100)) (sample_host ''2.83.0'' [''cycles''])
     ''OUTLINER'' (Some ''LIBRARIES'') None = Inr []"
proof -
  have 1: "\<forall>x \<in> set (host_spaces (sample_host ''2.83.0'' [''cycles''])).
             \<not> selected ''OUTLINER'' (Some ''LIBRARIES'') None x"
    by (simp add: sample_spaces selected_def candidate_def mode_selected_def sample_screens_def)
  have 2: "lacking ''OUTLINER'' (Some ''LIBRARIES'') None (sample_host ''2.83.0'' [''cycles'']) = []"
    by (rule sample_outliners_readable)
  show ?thesis
    using get_spaces_no_match[OF 1 2] .
qed

text \<open>
  C9. get_spaces with the empty list of screen names does what it does with the screen
  names left out, and that is a search of every screen of the host: the outcome is built
  from all the host's spaces with no condition on their screen (the spaces of the type
  name in areas of the type name, further filtered by a non-empty display mode; or
  AttributeError when that display mode cannot be read of one of them).
\<close>

theorem get_spaces_empty_screen_names:
  "get_spaces self h type_name display_mode (Some [])
     = get_spaces self h type_name display_mode None
   \<and> get_spaces self h type_name display_mode (Some [])
     = (if mode_in_force display_mode
           \<and> filter (\<lambda>(ob, sc, ar, sp). area_type ar = type_name \<and> space_type sp = type_name
                                         \<and> space_display_mode sp = None)
               (host_spaces h) \<noteq> []
        then Inl AttributeError
        else Inr (map fst
               (filter (\<lambda>(ob, sc, ar, sp). area_type ar = type_name \<and> space_type sp = type_name
                                           \<and> mode_selected display_mode sp)
                  (host_spaces h))))"
proof -
  have 1: "get_spaces self h type_name display_mode (Some [])
           = get_spaces self h type_name display_mode None"
    by (simp add: get_spaces_def)
  have 2: "lacking type_name display_mode None h
           = (if mode_in_force display_mode
              then filter (\<lambda>(ob, sc, ar, sp). area_type ar = type_name \<and> space_type sp = type_name
                                             \<and> space_display_mode sp = None) (host_spaces h)
              else [])"
    by (simp add: lacking_def mode_in_force_def candidate_def screen_selected_def
          split: option.splits list.splits)
  have 3: "selected type_name display_mode None
           = (\<lambda>(ob, sc, ar, sp). area_type ar = type_name \<and> space_type sp = type_name
                                  \<and> mode_selected display_mode sp)"
    by (simp add: selected_def candidate_def screen_selected_def fun_eq_iff)
  show ?thesis
    unfolding 1 by (simp add: get_spaces_result 2 3)
qed

text \<open>
  C10. Two hosts whose version strings agree on their first four characters are
  classified alike by the constructor and check_version (the same exception, or the same
  answer); and every version string that starts with "2.83" is supported.
\<close>

theorem version_guard_first_four:
  assumes "take 4 (app_version_string h1) = take 4 (app_version_string h2)"
  shows "version_guard h1 = version_guard h2
       \<and> version_guard (h1\<lparr>app_version_string := ''2.83'' @ patch\<rparr>) = Inr True"
  using assms
  by (simp add: version_guard_def init_def python_float_283 check_version_def py_in_singleton)

theorem version_guard_first_four_witness:
  "version_guard (sample_host ''2.83.0'' []) = version_guard (sample_host ''2.83.17'' [])"
proof -
  have 1: "take 4 (app_version_string (sample_host ''2.83.0'' []))
         = take 4 (app_version_string (sample_host ''2.83.17'' []))"
    by (simp add: sample_host_def)
  show ?thesis
    using version_guard_first_four[OF 1] by simp
qed

end
